theory Spec2Isabelle
  imports Complex_Main "HOL-Library.Sublist"
begin

section \<open>JavaScript values of the options and of the instance fields\<close>

text \<open>
  The fields \<open>env\<close> and \<open>namespace\<close> of a \<open>Secrets\<close> instance hold \<open>undefined\<close>,
  \<open>null\<close>, a string or an array of strings. \<open>truthy\<close> is the test of \<open>if (x)\<close>,
  \<open>x || y\<close> and \<open>x && y\<close>; \<open>to_string\<close> is the conversion of \<open>x + s\<close> and of a
  template literal; \<open>has_length\<close> is \<open>x && x.length\<close>.
\<close>

datatype jsval = JUndefined | JNull | JStr string | JArr "string list"

fun truthy :: "jsval \<Rightarrow> bool" where
  "truthy JUndefined = False"
| "truthy JNull = False"
| "truthy (JStr s) = (s \<noteq> [])"
| "truthy (JArr xs) = True"

fun join :: "string \<Rightarrow> string list \<Rightarrow> string" where
  "join sep [] = []"
| "join sep [x] = x"
| "join sep (x # y # ys) = x @ sep @ join sep (y # ys)"

fun to_string :: "jsval \<Rightarrow> string" where
  "to_string JUndefined = ''undefined''"
| "to_string JNull = ''null''"
| "to_string (JStr s) = s"
| "to_string (JArr xs) = join '','' xs"

fun has_length :: "jsval \<Rightarrow> bool" where
  "has_length (JStr s) = (s \<noteq> [])"
| "has_length (JArr xs) = (xs \<noteq> [])"
| "has_length _ = False"

definition truthy_str :: "string option \<Rightarrow> bool" where
  "truthy_str s = (case s of None \<Rightarrow> False | Some t \<Rightarrow> t \<noteq> [])"

section \<open>The class \<open>Secrets\<close>: constructor\<close>

definition DEFAULT_REGION :: string where
  "DEFAULT_REGION = ''us-west-2''"

definition MAX_RETRY_ATTEMPTS :: nat where
  "MAX_RETRY_ATTEMPTS = 3"

record process_env =
  NODE_ENV :: "string option"
  AWS_REGION :: "string option"

record ctor_options =
  opt_region :: "string option"
  opt_delimiter :: "string option"
  opt_env :: "string option"
  opt_namespace :: jsval
  opt_all :: bool

record secrets_instance =
  delimiter :: string
  env :: jsval
  region :: string
  namespace :: jsval
  retryAttempts :: nat

definition or_str :: "string option \<Rightarrow> string option \<Rightarrow> string option" where
  "or_str a b = (if truthy_str a then a else b)"

definition of_opt :: "string option \<Rightarrow> jsval" where
  "of_opt s = (case s of None \<Rightarrow> JUndefined | Some t \<Rightarrow> JStr t)"

text \<open>
  Lines 25 to 51. The join of an array namespace (line 40) is overwritten by the
  assignment of line 43, which is outside the \<open>if (Array.isArray ...)\<close>.
\<close>

definition "constructor" :: "process_env \<Rightarrow> ctor_options \<Rightarrow> secrets_instance" where
  "constructor penv options =
     \<lparr> delimiter = (case opt_delimiter options of
                      None \<Rightarrow> ''/''
                    | Some d \<Rightarrow> if d \<noteq> [] then d else ''/''),
       env = (if opt_all options then JNull
              else of_opt (or_str (opt_env options) (NODE_ENV penv))),
       region = (case or_str (or_str (opt_region options) (AWS_REGION penv)) (Some DEFAULT_REGION) of
                   Some r \<Rightarrow> r | None \<Rightarrow> DEFAULT_REGION),
       namespace = (if has_length (opt_namespace options) then opt_namespace options else JUndefined),
       retryAttempts = 0 \<rparr>"

text \<open>
  \<open>static get MAX_RETRY_ATTEMPTS\<close> (line 53) puts the accessor on the class object
  \<open>Secrets\<close>, not on \<open>Secrets.prototype\<close>, and the constructor assigns no such field:
  the lookup \<open>this.MAX_RETRY_ATTEMPTS\<close> of line 88 on an instance gives \<open>undefined\<close>.
  A comparison \<open>n <= undefined\<close> converts \<open>undefined\<close> to \<open>NaN\<close> and is false.
\<close>

definition this_MAX_RETRY_ATTEMPTS :: "secrets_instance \<Rightarrow> nat option" where
  "this_MAX_RETRY_ATTEMPTS this = None"

fun js_le :: "nat \<Rightarrow> nat option \<Rightarrow> bool" where
  "js_le a None = False"
| "js_le a (Some b) = (a \<le> b)"

section \<open>getSecret\<close>

record get_options =
  id_opt :: "string option"
  version :: "string option"
  stage :: "string option"
  raw :: bool

record params =
  SecretId :: "string option"
  VersionId :: "string option"
  VersionStage :: "string option"

record secret =
  Name :: string
  SecretString :: "string option"

record store_error =
  errorMessage :: "string option"
  message :: string

datatype resolved = RawRecord secret | SecretStringOf "string option"

datatype outcome = Resolved resolved | Rejected store_error

text \<open>
  The store is the external collaborator: \<open>store n p\<close> is what the \<open>n\<close>-th call of
  \<open>secretsmanager.send\<close> answers to the request \<open>p\<close>, \<open>Inl\<close> a thrown error. The list
  of the requests sent so far is carried beside the instance.
\<close>

type_synonym store = "nat \<Rightarrow> params \<Rightarrow> store_error + secret"

text \<open>Lines 68 to 77: the request.\<close>

definition getSecret_params :: "get_options \<Rightarrow> params" where
  "getSecret_params options =
     (if truthy_str (version options)
      then \<lparr> SecretId = id_opt options, VersionId = version options, VersionStage = None \<rparr>
      else if truthy_str (stage options)
      then \<lparr> SecretId = id_opt options, VersionId = None, VersionStage = stage options \<rparr>
      else \<lparr> SecretId = id_opt options, VersionId = None, VersionStage = None \<rparr>)"

text \<open>
  Lines 79 to 111. The retry of lines 93 to 99 calls \<open>getSecret\<close> again with the same
  options after the timer, on the instance whose counter line 91 has incremented.
\<close>

function getSecret :: "store \<Rightarrow> get_options \<Rightarrow> secrets_instance \<times> params list \<Rightarrow> outcome \<times> secrets_instance \<times> params list" where
  "getSecret store options (this, sent) =
     (case store (length sent) (getSecret_params options) of
        Inl err \<Rightarrow>
          (if errorMessage err = Some ''Rate exceeded''
               \<and> js_le (retryAttempts this) (this_MAX_RETRY_ATTEMPTS this)
           then getSecret store options
                  (this\<lparr>retryAttempts := retryAttempts this + 1\<rparr>, sent @ [getSecret_params options])
           else (Rejected err, this, sent @ [getSecret_params options]))
      | Inr s \<Rightarrow>
          (if raw options then (Resolved (RawRecord s), this, sent @ [getSecret_params options])
           else (Resolved (SecretStringOf (SecretString s)), this, sent @ [getSecret_params options])))"
  by pat_completeness auto
termination
  by (relation "measure (\<lambda>(store, options, this, sent).
        case this_MAX_RETRY_ATTEMPTS this of None \<Rightarrow> 0 | Some m \<Rightarrow> Suc m - retryAttempts this)")
     (simp_all add: this_MAX_RETRY_ATTEMPTS_def)

text \<open>A sequence of independent top-level calls on one instance.\<close>

fun getSecret_calls :: "store \<Rightarrow> get_options list \<Rightarrow> secrets_instance \<times> params list \<Rightarrow> secrets_instance \<times> params list" where
  "getSecret_calls store [] st = st"
| "getSecret_calls store (options # rest) st = getSecret_calls store rest (snd (getSecret store options st))"

section \<open>Strings: \<open>replace\<close> and \<open>split\<close>\<close>

text \<open>
  \<open>s.replace(p, '')\<close> with a string pattern removes the first (leftmost) occurrence of
  \<open>p\<close> in \<open>s\<close>, and leaves \<open>s\<close> as it is when there is none.
\<close>

fun replace_first :: "string \<Rightarrow> string \<Rightarrow> string" where
  "replace_first p [] = []"
| "replace_first p (c # cs) =
     (if take (length p) (c # cs) = p then drop (length p) (c # cs)
      else c # replace_first p cs)"

text \<open>
  \<open>s.split(sep)\<close> cuts at the occurrences of \<open>sep\<close> found from left to right, without
  overlap; an empty separator cuts between all characters.
\<close>

fun split_at :: "string \<Rightarrow> string \<Rightarrow> string list" where
  "split_at sep [] = [[]]"
| "split_at sep (c # cs) =
     (if take (length sep) (c # cs) = sep then [] # split_at sep (drop (length sep - 1) cs)
      else (case split_at sep cs of [] \<Rightarrow> [[c]] | x # xs \<Rightarrow> (c # x) # xs))"

definition split_str :: "string \<Rightarrow> string \<Rightarrow> string list" where
  "split_str sep s = (if sep = [] then map (\<lambda>c. [c]) s else split_at sep s)"

section \<open>Decoded values\<close>

text \<open>
  Decoded values and the nodes of the config tree. An object is the list of its own
  enumerable properties in insertion order; a decoded JSON array is an object of kind
  \<open>ArrayObject\<close> whose elements are the properties \<open>0\<close>, \<open>1\<close>, ...
\<close>

datatype obj_kind = PlainObject | ArrayObject

datatype jsvalue =
    VUndefined | VNull | VBool bool | VNum rat | VStr string
  | VObj obj_kind "(string \<times> jsvalue) list"

section \<open>createSecret\<close>

record create_options =
  name :: jsval
  description :: "string option"
  token :: "string option"
  kms :: "string option"
  tags :: "(string \<times> string) list option"
  secretsBinary :: "nat list option"
  secrets :: jsvalue

record create_params =
  create_Name :: jsval
  Description :: "string option"
  ClientRequestToken :: "string option"
  KmsKeyId :: "string option"
  Tags :: "(string \<times> string) list option"
  SecretBinary :: "nat list option"
  create_SecretString :: "string option"

text \<open>Lines 172 to 182: the name of the new secret.\<close>

definition name_joined :: "string \<Rightarrow> jsval \<Rightarrow> jsval" where
  "name_joined delim n = (case n of JArr xs \<Rightarrow> JStr (join delim xs) | _ \<Rightarrow> n)"

definition createSecret_name :: "secrets_instance \<Rightarrow> jsval \<Rightarrow> jsval" where
  "createSecret_name this n =
     (let n1 = name_joined (delimiter this) n;
          n2 = (if truthy (env this)
                then JStr (to_string (env this) @ delimiter this @ to_string n1) else n1)
      in if truthy (namespace this)
         then JStr (to_string (namespace this) @ delimiter this @ to_string n2) else n2)"

text \<open>
  Lines 170 to 220: the request sent to the store; \<open>stringify\<close> is \<open>JSON.stringify\<close>.
\<close>

definition createSecret :: "(jsvalue \<Rightarrow> string option) \<Rightarrow> secrets_instance \<Rightarrow> create_options \<Rightarrow> create_params" where
  "createSecret stringify this options =
     \<lparr> create_Name = createSecret_name this (name options),
       Description = (if truthy_str (description options) then description options else None),
       ClientRequestToken = (if truthy_str (token options) then token options else None),
       KmsKeyId = (if truthy_str (kms options) then kms options else None),
       Tags = tags options,
       SecretBinary = secretsBinary options,
       create_SecretString =
         (if secretsBinary options \<noteq> None then None
          else (case secrets options of VStr t \<Rightarrow> Some t | v \<Rightarrow> stringify v)) \<rparr>"

section \<open>parseSecrets\<close>

text \<open>
  \<open>SyntaxError\<close> and \<open>TypeError\<close> are the errors the program can throw here.
  \<open>Unmodelled\<close> is not an error of the program: it marks the inputs on which the walk
  of the second loop leaves the data described by \<open>jsvalue\<close>, where it steps into a
  member that a node inherits from \<open>Object.prototype\<close>, runs the \<open>__proto__\<close> setter
  on a node, or walks into a decoded array. From there on the code writes into objects
  shared by the whole process, and this theory says nothing about the tree it returns.
\<close>

datatype js_error = SyntaxError | TypeError | Unmodelled

text \<open>Lines 236 to 238: the name of a record without the prefixes.\<close>

definition strip_name :: "secrets_instance \<Rightarrow> string \<Rightarrow> string" where
  "strip_name this n =
     replace_first (to_string (env this) @ delimiter this)
       (replace_first (to_string (namespace this) @ delimiter this) n)"

text \<open>
  Lines 241 to 245: \<open>parse\<close> is \<open>JSON.parse\<close>, \<open>Inl\<close> the error it throws. An absent
  \<open>SecretString\<close> is converted to the string \<open>undefined\<close> by \<open>JSON.parse\<close>.
\<close>

definition decode :: "(string \<Rightarrow> js_error + jsvalue) \<Rightarrow> string option \<Rightarrow> jsvalue" where
  "decode parse s =
     (case parse (case s of None \<Rightarrow> ''undefined'' | Some t \<Rightarrow> t) of
        Inr v \<Rightarrow> v
      | Inl e \<Rightarrow> (case s of None \<Rightarrow> VUndefined | Some t \<Rightarrow> VStr t))"

text \<open>
  Creating or updating an own property: an own property keeps its place, a new one
  goes last.
\<close>

fun put :: "(string \<times> 'v) list \<Rightarrow> string \<Rightarrow> 'v \<Rightarrow> (string \<times> 'v) list" where
  "put [] k v = [(k, v)]"
| "put (p # ps) k v = (if fst p = k then (k, v) # ps else p # put ps k v)"

text \<open>
  The object \<open>config\<close> of line 231: its own properties and its prototype, which is
  \<open>Object.prototype\<close> until the \<open>__proto__\<close> setter replaces it by a decoded object or
  array, or by \<open>null\<close>.
\<close>

datatype prototype =
    ObjectPrototype | NullPrototype | ValuePrototype obj_kind "(string \<times> jsvalue) list"

record config_object =
  own :: "(string \<times> jsvalue) list"
  proto :: prototype

definition empty_config :: config_object where
  "empty_config = \<lparr> own = [], proto = ObjectPrototype \<rparr>"

text \<open>
  The setter of \<open>Object.prototype.__proto__\<close>: an object or \<open>null\<close> becomes the
  prototype, any other value is ignored.
\<close>

definition proto_setter :: "config_object \<Rightarrow> jsvalue \<Rightarrow> config_object" where
  "proto_setter c v =
     (case v of
        VObj k ps \<Rightarrow> c\<lparr> proto := ValuePrototype k ps \<rparr>
      | VNull \<Rightarrow> c\<lparr> proto := NullPrototype \<rparr>
      | _ \<Rightarrow> c)"

text \<open>
  \<open>config[name] = v\<close> (lines 242 and 244). Every name but \<open>__proto__\<close> becomes an own
  property. The name \<open>__proto__\<close> is an own property when \<open>config\<close> has one already, or
  when the prototype chain offers a data property of that name (a decoded object with
  a key \<open>__proto__\<close>) or no property at all (prototype \<open>null\<close>); otherwise the assignment
  runs the setter inherited from \<open>Object.prototype\<close>.
\<close>

definition config_set :: "config_object \<Rightarrow> string \<Rightarrow> jsvalue \<Rightarrow> config_object" where
  "config_set c n v =
     (if n \<noteq> ''__proto__'' \<or> map_of (own c) n \<noteq> None then c\<lparr> own := put (own c) n v \<rparr>
      else (case proto c of
              ObjectPrototype \<Rightarrow> proto_setter c v
            | NullPrototype \<Rightarrow> c\<lparr> own := put (own c) n v \<rparr>
            | ValuePrototype k ps \<Rightarrow>
                if map_of ps n \<noteq> None then c\<lparr> own := put (own c) n v \<rparr>
                else proto_setter c v))"

text \<open>Lines 234 to 247: the first loop fills \<open>config\<close>.\<close>

fun build_config :: "(string \<Rightarrow> js_error + jsvalue) \<Rightarrow> secrets_instance \<Rightarrow> secret list
    \<Rightarrow> config_object \<Rightarrow> config_object" where
  "build_config parse this [] config = config"
| "build_config parse this (s # list) config =
     build_config parse this list
       (config_set config (strip_name this (Name s)) (decode parse (SecretString s)))"

text \<open>
  The own enumerable keys of an object come in this order: the keys that are array
  indices (canonical decimal numerals up to \<open>2^32 - 2\<close>) first, ascending, then the other
  keys in insertion order.
\<close>

definition digits_value :: "string \<Rightarrow> int" where
  "digits_value s = foldl (\<lambda>n c. 10 * n + (of_char c - 48)) 0 s"

definition array_index :: "string \<Rightarrow> int option" where
  "array_index s =
     (if s \<noteq> [] \<and> list_all (\<lambda>c. c \<in> set ''0123456789'') s
         \<and> (s = ''0'' \<or> hd s \<noteq> CHR ''0'') \<and> digits_value s \<le> 4294967294
      then Some (digits_value s) else None)"

definition own_keys_order :: "(string \<times> 'v) list \<Rightarrow> (string \<times> 'v) list" where
  "own_keys_order ps =
     sort_key (\<lambda>p. the (array_index (fst p))) (filter (\<lambda>p. array_index (fst p) \<noteq> None) ps)
     @ filter (\<lambda>p. array_index (fst p) = None) ps"

text \<open>
  \<open>for (let item in config)\<close> with \<open>config[item]\<close> (lines 249 and 260): the own
  properties, then the enumerable properties of the prototype that no own property
  hides, each with the value the lookup finds.
\<close>

definition for_in :: "config_object \<Rightarrow> (string \<times> jsvalue) list" where
  "for_in c =
     own_keys_order (own c)
     @ (case proto c of
          ValuePrototype k ps \<Rightarrow> filter (\<lambda>p. map_of (own c) (fst p) = None) (own_keys_order ps)
        | _ \<Rightarrow> [])"

fun truthy_value :: "jsvalue \<Rightarrow> bool" where
  "truthy_value VUndefined = False"
| "truthy_value VNull = False"
| "truthy_value (VBool b) = b"
| "truthy_value (VNum r) = (r \<noteq> 0)"
| "truthy_value (VStr s) = (s \<noteq> [])"
| "truthy_value (VObj k ps) = True"

text \<open>The own properties of \<open>Object.prototype\<close>, which every plain object inherits.\<close>

definition Object_prototype_keys :: "string list" where
  "Object_prototype_keys =
     [''constructor'', ''__defineGetter__'', ''__defineSetter__'', ''hasOwnProperty'',
      ''__lookupGetter__'', ''__lookupSetter__'', ''isPrototypeOf'', ''propertyIsEnumerable'',
      ''toString'', ''valueOf'', ''__proto__'', ''toLocaleString'']"

definition ordinary_key :: "string \<Rightarrow> bool" where
  "ordinary_key k = (k \<notin> set Object_prototype_keys)"

text \<open>
  Lines 256 to 260, from the node \<open>cache\<close>: each \<open>part\<close> steps into \<open>cache[part]\<close> when
  that is truthy and into a fresh \<open>{}\<close> stored there otherwise, then \<open>key\<close> is assigned.
  A class body is strict mode code, so an assignment to a property of a primitive
  value (a string, a number, \<open>true\<close>) throws a \<open>TypeError\<close>. On a plain object the lookup
  of a key that is no own property finds the member of \<open>Object.prototype\<close> of that name
  if there is one, and the assignment of \<open>__proto__\<close> runs the setter unless the
  object has an own property of that name.
\<close>

fun set_path :: "jsvalue \<Rightarrow> string list \<Rightarrow> string \<Rightarrow> jsvalue \<Rightarrow> js_error + jsvalue" where
  "set_path (VObj PlainObject ps) [] key v =
     (if key = ''__proto__'' \<and> map_of ps key = None then Inl Unmodelled
      else Inr (VObj PlainObject (put ps key v)))"
| "set_path (VObj PlainObject ps) (part # parts) key v =
     (if map_of ps part = None \<and> part \<in> set Object_prototype_keys then Inl Unmodelled
      else (case set_path
                   (case map_of ps part of
                      None \<Rightarrow> VObj PlainObject []
                    | Some c \<Rightarrow> if truthy_value c then c else VObj PlainObject [])
                   parts key v of
              Inl e \<Rightarrow> Inl e
            | Inr c' \<Rightarrow> Inr (VObj PlainObject (put ps part c'))))"
| "set_path (VObj ArrayObject ps) parts key v = Inl Unmodelled"
| "set_path cache parts key v = Inl TypeError"

text \<open>
  Lines 251 to 260 for one item: \<open>parts.pop()\<close> of an empty array is \<open>undefined\<close>, which
  as a property key is the string \<open>undefined\<close>.
\<close>

definition set_item :: "string \<Rightarrow> jsvalue \<Rightarrow> string \<Rightarrow> jsvalue \<Rightarrow> js_error + jsvalue" where
  "set_item delim res item v =
     (let parts = split_str delim item
      in if parts = [] then set_path res [] ''undefined'' v
         else set_path res (butlast parts) (last parts) v)"

text \<open>Lines 249 to 261: the second loop fills \<open>res\<close>.\<close>

fun build_tree :: "string \<Rightarrow> (string \<times> jsvalue) list \<Rightarrow> jsvalue \<Rightarrow> js_error + jsvalue" where
  "build_tree delim [] res = Inr res"
| "build_tree delim (p # items) res =
     (case set_item delim res (fst p) (snd p) of
        Inl e \<Rightarrow> Inl e
      | Inr res' \<Rightarrow> build_tree delim items res')"

definition parseSecrets :: "(string \<Rightarrow> js_error + jsvalue) \<Rightarrow> secrets_instance \<Rightarrow> secret list \<Rightarrow> js_error + jsvalue" where
  "parseSecrets parse this list =
     build_tree (delimiter this) (for_in (build_config parse this list empty_config))
       (VObj PlainObject [])"

text \<open>The path of the tree under which a record's value is stored.\<close>

definition key_path :: "secrets_instance \<Rightarrow> string \<Rightarrow> string list" where
  "key_path this n = split_str (delimiter this) (strip_name this n)"


text \<open>The tree that holds the value \<open>v\<close> under the path \<open>path\<close> and nothing else.\<close>

fun nest :: "string list \<Rightarrow> jsvalue \<Rightarrow> jsvalue" where
  "nest [] v = v"
| "nest (k # ks) v = VObj PlainObject [(k, nest ks v)]"

text \<open>Stores and options of the scenarios below.\<close>

definition rate_error :: store_error where
  "rate_error = \<lparr> errorMessage = Some ''Rate exceeded'', message = ''Rate exceeded'' \<rparr>"

definition db_secret :: secret where
  "db_secret = \<lparr> Name = ''acme/prod/db/password'', SecretString = Some ''s3cr3t'' \<rparr>"

definition limited_then_ok :: "nat \<Rightarrow> store" where
  "limited_then_ok k n p = (if n < k then Inl rate_error else Inr db_secret)"

definition no_options :: ctor_options where
  "no_options = \<lparr> opt_region = None, opt_delimiter = None, opt_env = None,
                  opt_namespace = JUndefined, opt_all = False \<rparr>"

definition no_env :: process_env where
  "no_env = \<lparr> NODE_ENV = None, AWS_REGION = None \<rparr>"

definition get_by_id :: "string \<Rightarrow> get_options" where
  "get_by_id i = \<lparr> id_opt = Some i, version = None, stage = None, raw = False \<rparr>"

text \<open>
  \<open>JSON.parse\<close> on the documents of the scenarios: \<open>5432\<close> and \<open>0\<close> are numbers,
  \<open>{"x":1}\<close> is an object, the other strings used below are not JSON.
\<close>

definition parse_sample :: "string \<Rightarrow> js_error + jsvalue" where
  "parse_sample s =
     (if s = ''5432'' then Inr (VNum 5432)
      else if s = ''0'' then Inr (VNum 0)
      else if s = ''{\"x\":1}'' then Inr (VObj PlainObject [(''x'', VNum 1)])
      else Inl SyntaxError)"

definition acme_prod :: secrets_instance where
  "acme_prod = constructor no_env
     (no_options\<lparr> opt_namespace := JStr ''acme'', opt_env := Some ''prod'' \<rparr>)"

definition retrieve_all :: secrets_instance where
  "retrieve_all = constructor no_env (no_options\<lparr> opt_all := True \<rparr>)"

definition record_of :: "string \<Rightarrow> string \<Rightarrow> secret" where
  "record_of n s = \<lparr> Name = n, SecretString = Some s \<rparr>"

text \<open>
  A new secret whose value is a string, which \<open>createSecret\<close> sends verbatim;
  \<open>JSON.stringify\<close> is not called for it, so the scenarios pass a \<open>stringify\<close> that
  returns nothing.
\<close>

definition new_secret :: "jsval \<Rightarrow> create_options" where
  "new_secret n = \<lparr> name = n, description = None, token = None, kms = None, tags = None,
                     secretsBinary = None, secrets = VStr ''s3cr3t'' \<rparr>"

definition stringify_unused :: "jsvalue \<Rightarrow> string option" where
  "stringify_unused v = None"

section \<open>Lemmas on getSecret\<close>

lemma getSecret_counter:
  "retryAttempts this \<le> retryAttempts (fst (snd (getSecret store options (this, sent))))"
proof (induction store options "(this, sent)" arbitrary: this sent rule: getSecret.induct)
  case (1 store options this sent)
  show ?case
  proof (cases "store (length sent) (getSecret_params options)")
    case (Inl err)
    show ?thesis
    proof (cases "errorMessage err = Some ''Rate exceeded''
                   \<and> js_le (retryAttempts this) (this_MAX_RETRY_ATTEMPTS this)")
      case True
      from "1" [OF Inl True] have
        "retryAttempts (this\<lparr>retryAttempts := retryAttempts this + 1\<rparr>)
           \<le> retryAttempts (fst (snd (getSecret store options
                (this\<lparr>retryAttempts := retryAttempts this + 1\<rparr>, sent @ [getSecret_params options]))))" .
      with Inl True show ?thesis by simp
    next
      case False
      with Inl show ?thesis by auto
    qed
  next
    case (Inr s)
    then show ?thesis by simp
  qed
qed

lemma getSecret_calls_counter:
  "retryAttempts (fst st) \<le> retryAttempts (fst (getSecret_calls store calls st))"
proof (induction calls arbitrary: st)
  case Nil
  show ?case by simp
next
  case (Cons options rest)
  obtain this sent where st: "st = (this, sent)" by (cases st)
  have "retryAttempts this \<le> retryAttempts (fst (snd (getSecret store options (this, sent))))"
    by (rule getSecret_counter)
  also have "\<dots> \<le> retryAttempts (fst (getSecret_calls store rest (snd (getSecret store options (this, sent)))))"
    by (rule Cons.IH)
  finally show ?case by (simp add: st)
qed

lemma getSecret_sent:
  "set (snd (snd (getSecret store options (this, sent)))) \<subseteq> insert (getSecret_params options) (set sent)"
proof (induction store options "(this, sent)" arbitrary: this sent rule: getSecret.induct)
  case (1 store options this sent)
  show ?case
  proof (cases "store (length sent) (getSecret_params options)")
    case (Inl err)
    show ?thesis
    proof (cases "errorMessage err = Some ''Rate exceeded''
                   \<and> js_le (retryAttempts this) (this_MAX_RETRY_ATTEMPTS this)")
      case True
      from "1" [OF Inl True] Inl True show ?thesis by auto
    next
      case False
      with Inl show ?thesis by auto
    qed
  next
    case (Inr s)
    then show ?thesis by auto
  qed
qed

section \<open>Lemmas on strings\<close>

lemma replace_first_prefix: "replace_first p (p @ r) = r"
proof (cases "p @ r")
  case Nil
  then show ?thesis by simp
next
  case (Cons c cs)
  have "take (length p) (c # cs) = p" by (simp add: Cons [symmetric])
  moreover have "drop (length p) (c # cs) = r" by (simp add: Cons [symmetric])
  ultimately have "replace_first p (c # cs) = r" by simp
  then show ?thesis by (simp add: Cons)
qed

lemma replace_first_prefix2: "replace_first (a @ b) (a @ b @ r) = r"
  using replace_first_prefix [of "a @ b" r] by simp

lemma replace_first_leftmost:
  "\<forall>i<length a. take (length p) (drop i (a @ p @ b)) \<noteq> p \<Longrightarrow> replace_first p (a @ p @ b) = a @ b"
proof (induction a)
  case Nil
  show ?case using replace_first_prefix [of p b] by simp
next
  case (Cons x a)
  from Cons.prems have "take (length p) (drop 0 ((x # a) @ p @ b)) \<noteq> p" by blast
  then have here: "take (length p) (x # a @ p @ b) \<noteq> p" by simp
  have "\<forall>i<length a. take (length p) (drop i (a @ p @ b)) \<noteq> p"
  proof (intro allI impI)
    fix i assume "i < length a"
    then have "Suc i < length (x # a)" by simp
    with Cons.prems have "take (length p) (drop (Suc i) ((x # a) @ p @ b)) \<noteq> p" by blast
    then show "take (length p) (drop i (a @ p @ b)) \<noteq> p" by simp
  qed
  then have "replace_first p (a @ p @ b) = a @ b" by (rule Cons.IH)
  with here show ?case by simp
qed

lemma split_at_nonempty: "split_at sep s \<noteq> []"
  by (induction sep s rule: split_at.induct) (auto split: list.splits)

lemma split_str_nonempty: "sep \<noteq> [] \<Longrightarrow> split_str sep s \<noteq> []"
  by (simp add: split_str_def split_at_nonempty)

lemma replace_first_absent:
  "\<forall>i<length s. take (length p) (drop i s) \<noteq> p \<Longrightarrow> replace_first p s = s"
proof (induction s)
  case Nil
  show ?case by simp
next
  case (Cons x s)
  from Cons.prems have "take (length p) (drop 0 (x # s)) \<noteq> p" by blast
  then have here: "take (length p) (x # s) \<noteq> p" by simp
  have "\<forall>i<length s. take (length p) (drop i s) \<noteq> p"
  proof (intro allI impI)
    fix i assume "i < length s"
    then have "Suc i < length (x # s)" by simp
    with Cons.prems have "take (length p) (drop (Suc i) (x # s)) \<noteq> p" by blast
    then show "take (length p) (drop i s) \<noteq> p" by simp
  qed
  then have "replace_first p s = s" by (rule Cons.IH)
  with here show ?case by simp
qed

lemma split_at_apart:
  assumes "d \<noteq> []" and "set x \<inter> set d = {}"
  shows "split_at d x = [x]"
  using assms(2)
proof (induction x)
  case Nil
  show ?case by simp
next
  case (Cons a x)
  from Cons.prems have a: "a \<notin> set d" and x: "set x \<inter> set d = {}" by auto
  have "take (length d) (a # x) \<noteq> d"
  proof
    assume "take (length d) (a # x) = d"
    with assms(1) have "hd d = a" by (cases d) auto
    with assms(1) a show False by (cases d) auto
  qed
  with Cons.IH [OF x] show ?case by simp
qed

lemma split_at_delimiter:
  assumes "d \<noteq> []" and "set x \<inter> set d = {}"
  shows "split_at d (x @ d @ r) = x # split_at d r"
  using assms(2)
proof (induction x)
  case Nil
  from assms(1) obtain c cs where d: "d = c # cs" by (cases d) auto
  show ?case by (simp add: d)
next
  case (Cons a x)
  from Cons.prems have a: "a \<notin> set d" and x: "set x \<inter> set d = {}" by auto
  have "take (length d) (a # x @ d @ r) \<noteq> d"
  proof
    assume "take (length d) (a # x @ d @ r) = d"
    with assms(1) have "hd d = a" by (cases d) auto
    with assms(1) a show False by (cases d) auto
  qed
  with Cons.IH [OF x] show ?case by simp
qed

lemma split_at_join_apart:
  "d \<noteq> [] \<Longrightarrow> xs \<noteq> [] \<Longrightarrow> \<forall>x\<in>set xs. set x \<inter> set d = {} \<Longrightarrow>
   split_at d (join d xs) = xs"
proof (induction d xs rule: join.induct)
  case (1 sep)
  then show ?case by simp
next
  case (2 sep x)
  then show ?case by (simp add: split_at_apart)
next
  case (3 sep x y ys)
  then show ?case by (simp add: split_at_delimiter)
qed


section \<open>Lemmas on the config tree\<close>




lemma set_path_fresh:
  "\<forall>p\<in>set parts. ordinary_key p \<Longrightarrow> key \<noteq> ''__proto__'' \<Longrightarrow>
   set_path (VObj PlainObject []) parts key v = Inr (nest (parts @ [key]) v)"
  by (induction parts) (auto simp: ordinary_key_def)









lemma set_item_path:
  "d \<noteq> [] \<Longrightarrow>
   set_item d t n v = set_path t (butlast (split_str d n)) (last (split_str d n)) v"
  using split_str_nonempty [of d n] by (simp add: set_item_def Let_def)

lemma proto_not_ordinary: "ordinary_key k \<Longrightarrow> k \<noteq> ''__proto__''"
  by (auto simp: ordinary_key_def Object_prototype_keys_def)

lemma set_item_fresh:
  assumes "d \<noteq> []" and "\<forall>k\<in>set (split_str d n). ordinary_key k"
  shows "set_item d (VObj PlainObject []) n v = Inr (nest (split_str d n) v)"
proof -
  let ?p = "split_str d n"
  have ne: "?p \<noteq> []" using assms(1) by (rule split_str_nonempty)
  from assms(2) ne have "\<forall>k\<in>set (butlast ?p). ordinary_key k" and "ordinary_key (last ?p)"
    by (auto dest: in_set_butlastD)
  then have "set_path (VObj PlainObject []) (butlast ?p) (last ?p) v
               = Inr (nest (butlast ?p @ [last ?p]) v)"
    by (intro set_path_fresh proto_not_ordinary)
  with ne show ?thesis by (simp add: set_item_path [OF assms(1)])
qed










section \<open>Lemmas on parseSecrets\<close>

lemma constructor_delimiter: "delimiter (constructor penv options) \<noteq> []"
  by (cases "opt_delimiter options") (simp_all add: constructor_def)



lemma own_keys_order_single: "own_keys_order [p] = [p]"
  by (simp add: own_keys_order_def)

lemma config_set_plain:
  "n \<noteq> ''__proto__'' \<Longrightarrow> config_set c n v = c\<lparr> own := put (own c) n v \<rparr>"
  by (simp add: config_set_def)



lemma parseSecrets_single:
  assumes "delimiter this \<noteq> []"
    and "strip_name this (Name r) \<noteq> ''__proto__''"
    and "\<forall>k\<in>set (split_str (delimiter this) (strip_name this (Name r))). ordinary_key k"
  shows "parseSecrets parse this [r]
           = Inr (nest (split_str (delimiter this) (strip_name this (Name r)))
                   (decode parse (SecretString r)))"
  using assms(2) set_item_fresh [OF assms(1,3)]
  by (simp add: parseSecrets_def config_set_plain empty_config_def for_in_def own_keys_order_single)

lemmas parse_defs =
  parseSecrets_def empty_config_def config_set_def proto_setter_def for_in_def own_keys_order_def
  array_index_def set_item_def split_str_def strip_name_def decode_def parse_sample_def
  record_of_def Object_prototype_keys_def

lemma acme_prod_fields:
  "acme_prod = \<lparr> delimiter = ''/'', env = JStr ''prod'', region = ''us-west-2'',
                 namespace = JStr ''acme'', retryAttempts = 0 \<rparr>"
  by (simp add: acme_prod_def constructor_def no_options_def no_env_def truthy_str_def
      or_str_def of_opt_def DEFAULT_REGION_def)

lemma retrieve_all_fields:
  "retrieve_all = \<lparr> delimiter = ''/'', env = JNull, region = ''us-west-2'',
                    namespace = JUndefined, retryAttempts = 0 \<rparr>"
  by (simp add: retrieve_all_def constructor_def no_options_def no_env_def truthy_str_def
      or_str_def DEFAULT_REGION_def)

section \<open>The claims\<close>

text \<open>
  C1. A fresh instance whose store answers the rate-limit error three times and then a
  secret should resolve with the secret. The code does not: the guard of line 88 reads
  \<open>this.MAX_RETRY_ATTEMPTS\<close>, which is \<open>undefined\<close> on an instance, so the first
  rate-limit error is rejected after one request and the counter stays at zero.
\<close>

theorem getSecret_rate_limit_rejected_at_once:
  "getSecret (limited_then_ok MAX_RETRY_ATTEMPTS) (get_by_id ''db'') (constructor no_env no_options, [])
     = (Rejected rate_error, constructor no_env no_options, [getSecret_params (get_by_id ''db'')])"
  by (simp add: limited_then_ok_def MAX_RETRY_ATTEMPTS_def rate_error_def this_MAX_RETRY_ATTEMPTS_def)

text \<open>
  C7. The request of a \<open>getSecret\<close> call carries at most one version qualifier. A
  supplied (non-empty) version is sent as \<open>VersionId\<close> and the stage is then left out; a
  \<open>VersionStage\<close> is sent only when no version is supplied, and is then the stage of the
  options. Every request the call sends to the store is this one.
\<close>

theorem getSecret_one_qualifier:
  "(VersionId (getSecret_params options) = None \<or> VersionStage (getSecret_params options) = None)
   \<and> (truthy_str (version options) \<longrightarrow>
        VersionId (getSecret_params options) = version options
        \<and> VersionStage (getSecret_params options) = None)
   \<and> (VersionStage (getSecret_params options) \<noteq> None \<longrightarrow>
        \<not> truthy_str (version options)
        \<and> VersionStage (getSecret_params options) = stage options)
   \<and> SecretId (getSecret_params options) = id_opt options
   \<and> (\<forall>p \<in> set (snd (snd (getSecret store options (this, [])))). p = getSecret_params options)"
proof -
  have "set (snd (snd (getSecret store options (this, [])))) \<subseteq> insert (getSecret_params options) (set [])"
    by (rule getSecret_sent)
  then have "\<forall>p \<in> set (snd (snd (getSecret store options (this, [])))). p = getSecret_params options"
    by auto
  then show ?thesis
    by (simp add: getSecret_params_def)
qed

theorem getSecret_one_qualifier_witness:
  "truthy_str (Some ''v1'')
   \<and> getSecret_params \<lparr> id_opt = Some ''db'', version = Some ''v1'', stage = Some ''AWSCURRENT'', raw = False \<rparr>
       = \<lparr> SecretId = Some ''db'', VersionId = Some ''v1'', VersionStage = None \<rparr>
   \<and> VersionStage (getSecret_params \<lparr> id_opt = Some ''db'', version = None, stage = Some ''AWSCURRENT'', raw = False \<rparr>)
       = Some ''AWSCURRENT''
   \<and> snd (snd (getSecret (limited_then_ok 0)
         \<lparr> id_opt = Some ''db'', version = Some ''v1'', stage = Some ''AWSCURRENT'', raw = False \<rparr>
         (constructor no_env no_options, [])))
       = [\<lparr> SecretId = Some ''db'', VersionId = Some ''v1'', VersionStage = None \<rparr>]"
  using getSecret_one_qualifier
    [of "\<lparr> id_opt = Some ''db'', version = Some ''v1'', stage = Some ''AWSCURRENT'', raw = False \<rparr>"
        "limited_then_ok 0" "constructor no_env no_options"]
  by (simp add: truthy_str_def getSecret_params_def limited_then_ok_def)

text \<open>
  C8. The retry counter is zero after construction, and no sequence of \<open>getSecret\<close>
  calls on an instance, whatever the store answers, leaves it lower than it was. The
  constructor is the only place that assigns it a value that does not come from the
  increment of line 91.
\<close>

theorem retryAttempts_monotone:
  "retryAttempts (constructor penv options) = 0
   \<and> retryAttempts this \<le> retryAttempts (fst (snd (getSecret store call (this, sent))))
   \<and> retryAttempts this \<le> retryAttempts (fst (getSecret_calls store calls (this, sent)))"
proof -
  have "retryAttempts (fst (this, sent)) \<le> retryAttempts (fst (getSecret_calls store calls (this, sent)))"
    by (rule getSecret_calls_counter)
  then show ?thesis
    using getSecret_counter [of this store call sent]
    by (simp add: constructor_def)
qed

text \<open>
  C2. In retrieve-all mode (\<open>all\<close> set) the parsing of the records should strip no
  environment prefix. The code does strip one: the constructor sets \<open>env\<close> to \<open>null\<close>,
  and line 238 replaces \<open>this.env + this.delimiter\<close> without the guard \<open>if (this.env)\<close>
  that \<open>createSecret\<close> has, so the first \<open>null/\<close> of a name is removed. The record
  \<open>null/db\<close> lands under the path \<open>db\<close>, not under \<open>null\<close>, \<open>db\<close>.
\<close>

theorem retrieve_all_strips_null_prefix:
  "env retrieve_all = JNull
   \<and> split_str ''/'' ''null/db'' = [''null'', ''db'']
   \<and> key_path retrieve_all ''null/db'' = [''db'']
   \<and> parseSecrets parse_sample retrieve_all [record_of ''null/db'' ''s3cr3t'']
       = Inr (VObj PlainObject [(''db'', VStr ''s3cr3t'')])"
  by (simp add: retrieve_all_fields key_path_def parse_defs)




text \<open>
  C4, as stated, fails for a name given as an array with a segment that contains the
  delimiter: the name \<open>['a/b']\<close> is written as \<open>acme/prod/a/b\<close> and read back under the
  path \<open>a\<close>, \<open>b\<close>, which is not the one segment \<open>a/b\<close> of the name.
\<close>

theorem roundtrip_array_segment_counterexample:
  "create_Name (createSecret stringify_unused acme_prod (new_secret (JArr [''a/b''])))
     = JStr ''acme/prod/a/b''
   \<and> split_str ''/'' (strip_name acme_prod ''acme/prod/a/b'') = [''a'', ''b'']
   \<and> parseSecrets parse_sample acme_prod [record_of ''acme/prod/a/b'' ''s3cr3t'']
       = Inr (VObj PlainObject [(''a'', VObj PlainObject [(''b'', VStr ''s3cr3t'')])])"
  by (simp add: acme_prod_fields createSecret_def createSecret_name_def name_joined_def
      new_secret_def parse_defs)

text \<open>
  C4, amended. Round trip, for an instance with a namespace and an environment
  configured (both truthy), any delimiter and any name: the name that \<open>createSecret\<close>
  sends, once stripped by the key parser, is the unprefixed name again (the name itself
  when it is a string, its segments joined with the delimiter when it is an array), and
  the path is the split of that unprefixed name. For a non-empty array name whose
  segments share no character with the (non-empty) delimiter, this path is the array
  of segments itself. When the delimiter is not empty, the unprefixed name is not
  \<open>__proto__\<close> and no segment of the path is a member of \<open>Object.prototype\<close>,
  \<open>parseSecrets\<close> stores the value of the record read back under exactly this path.
\<close>

theorem write_read_roundtrip:
  assumes "truthy (namespace this)" and "truthy (env this)"
  shows "strip_name this (to_string (create_Name (createSecret stringify this options)))
           = to_string (name_joined (delimiter this) (name options))
       \<and> (delimiter this \<noteq> []
            \<and> to_string (name_joined (delimiter this) (name options)) \<noteq> ''__proto__''
            \<and> (\<forall>k\<in>set (split_str (delimiter this)
                          (to_string (name_joined (delimiter this) (name options)))).
                  ordinary_key k) \<longrightarrow>
            parseSecrets parse this
              [\<lparr> Name = to_string (create_Name (createSecret stringify this options)),
                 SecretString = s \<rparr>]
              = Inr (nest (split_str (delimiter this)
                             (to_string (name_joined (delimiter this) (name options))))
                       (decode parse s)))
       \<and> (\<forall>n. name options = JStr n \<longrightarrow>
            to_string (name_joined (delimiter this) (name options)) = n)
       \<and> (\<forall>xs. name options = JArr xs \<and> xs \<noteq> [] \<and> delimiter this \<noteq> []
                 \<and> (\<forall>x\<in>set xs. set x \<inter> set (delimiter this) = {}) \<longrightarrow>
            split_str (delimiter this) (to_string (name_joined (delimiter this) (name options)))
              = xs)"
proof (intro conjI allI impI)
  show strip: "strip_name this (to_string (create_Name (createSecret stringify this options)))
           = to_string (name_joined (delimiter this) (name options))"
    using assms
    by (simp add: createSecret_def strip_name_def createSecret_name_def Let_def replace_first_prefix2)
  assume h: "delimiter this \<noteq> []
            \<and> to_string (name_joined (delimiter this) (name options)) \<noteq> ''__proto__''
            \<and> (\<forall>k\<in>set (split_str (delimiter this)
                          (to_string (name_joined (delimiter this) (name options)))).
                  ordinary_key k)"
  let ?r = "\<lparr> Name = to_string (create_Name (createSecret stringify this options)),
               SecretString = s \<rparr>"
  from h strip have "delimiter this \<noteq> []" and "strip_name this (Name ?r) \<noteq> ''__proto__''"
    and "\<forall>k\<in>set (split_str (delimiter this) (strip_name this (Name ?r))). ordinary_key k"
    by simp_all
  from parseSecrets_single [OF this, of parse] strip
  show "parseSecrets parse this [?r] = Inr (nest (split_str (delimiter this)
                             (to_string (name_joined (delimiter this) (name options))))
                       (decode parse s))"
    by simp
next
  fix n assume "name options = JStr n"
  then show "to_string (name_joined (delimiter this) (name options)) = n"
    by (simp add: name_joined_def)
next
  fix xs
  assume "name options = JArr xs \<and> xs \<noteq> [] \<and> delimiter this \<noteq> []
                 \<and> (\<forall>x\<in>set xs. set x \<inter> set (delimiter this) = {})"
  then show "split_str (delimiter this) (to_string (name_joined (delimiter this) (name options)))
              = xs"
    by (simp add: name_joined_def split_str_def split_at_join_apart)
qed

theorem write_read_roundtrip_witness:
  "truthy (namespace acme_prod) \<and> truthy (env acme_prod)
   \<and> create_Name (createSecret stringify_unused acme_prod (new_secret (JArr [''db'', ''password''])))
       = JStr ''acme/prod/db/password''
   \<and> strip_name acme_prod ''acme/prod/db/password'' = ''db/password''
   \<and> split_str ''/'' ''db/password'' = [''db'', ''password'']
   \<and> parseSecrets parse_sample acme_prod [record_of ''acme/prod/db/password'' ''s3cr3t'']
       = Inr (VObj PlainObject [(''db'', VObj PlainObject [(''password'', VStr ''s3cr3t'')])])"
proof -
  have h1: "truthy (namespace acme_prod)" and h2: "truthy (env acme_prod)"
    by (simp_all add: acme_prod_fields)
  have n: "create_Name (createSecret stringify_unused acme_prod (new_secret (JArr [''db'', ''password''])))
       = JStr ''acme/prod/db/password''"
    by (simp add: acme_prod_fields createSecret_def createSecret_name_def name_joined_def
        new_secret_def)
  have j: "to_string (name_joined (delimiter acme_prod) (name (new_secret (JArr [''db'', ''password'']))))
       = ''db/password''"
    by (simp add: acme_prod_fields name_joined_def new_secret_def)
  have p: "split_str (delimiter acme_prod) ''db/password'' = [''db'', ''password'']"
    by (simp add: acme_prod_fields split_str_def)
  have k: "ordinary_key ''db''" "ordinary_key ''password''"
    by (simp_all add: ordinary_key_def Object_prototype_keys_def)
  have d: "delimiter acme_prod \<noteq> []" by (simp add: acme_prod_fields)
  note rt = write_read_roundtrip [OF h1 h2, where stringify = stringify_unused
      and options = "new_secret (JArr [''db'', ''password''])"
      and s = "Some ''s3cr3t''" and parse = parse_sample]
  from rt have st: "strip_name acme_prod ''acme/prod/db/password'' = ''db/password''"
    by (simp add: n j)
  from rt have sg: "split_str ''/'' ''db/password'' = [''db'', ''password'']"
    by (simp add: new_secret_def acme_prod_fields name_joined_def)
  from rt have "parseSecrets parse_sample acme_prod [record_of ''acme/prod/db/password'' ''s3cr3t'']
       = Inr (VObj PlainObject [(''db'', VObj PlainObject [(''password'', VStr ''s3cr3t'')])])"
    by (simp add: n j p k d record_of_def decode_def parse_sample_def)
  with h1 h2 n st sg show ?thesis by simp
qed




text \<open>
  C6. For the two paths \<open>a\<close>, \<open>b\<close> and \<open>a\<close>, \<open>c\<close> the tree is
  \<open>{a: {b: v1, c: v2}}\<close>, with both leaves under the one node \<open>a\<close>, in either
  processing order (the order only shows in the insertion order of the two leaves). The
  same holds for the records \<open>acme/prod/a/b\<close> and \<open>acme/prod/a/c\<close> of an instance with
  namespace \<open>acme\<close> and environment \<open>prod\<close>, whatever their values.
\<close>

theorem shared_prefix_merges:
  "build_tree ''/'' [(''a/b'', v1), (''a/c'', v2)] (VObj PlainObject [])
     = Inr (VObj PlainObject [(''a'', VObj PlainObject [(''b'', v1), (''c'', v2)])])
   \<and> build_tree ''/'' [(''a/c'', v2), (''a/b'', v1)] (VObj PlainObject [])
     = Inr (VObj PlainObject [(''a'', VObj PlainObject [(''c'', v2), (''b'', v1)])])
   \<and> parseSecrets parse acme_prod
        [\<lparr> Name = ''acme/prod/a/b'', SecretString = s1 \<rparr>, \<lparr> Name = ''acme/prod/a/c'', SecretString = s2 \<rparr>]
     = Inr (VObj PlainObject
         [(''a'', VObj PlainObject [(''b'', decode parse s1), (''c'', decode parse s2)])])
   \<and> parseSecrets parse acme_prod
        [\<lparr> Name = ''acme/prod/a/c'', SecretString = s2 \<rparr>, \<lparr> Name = ''acme/prod/a/b'', SecretString = s1 \<rparr>]
     = Inr (VObj PlainObject
         [(''a'', VObj PlainObject [(''c'', decode parse s2), (''b'', decode parse s1)])])"
proof -
  have sp: "split_str ''/'' ''a/b'' = [''a'', ''b'']" "split_str ''/'' ''a/c'' = [''a'', ''c'']"
    by (simp_all add: split_str_def)
  have st: "strip_name acme_prod ''acme/prod/a/b'' = ''a/b''"
    "strip_name acme_prod ''acme/prod/a/c'' = ''a/c''"
    by (simp_all add: acme_prod_fields strip_name_def)
  have ix: "array_index ''a/b'' = None" "array_index ''a/c'' = None"
    by (simp_all add: array_index_def)
  have d: "delimiter acme_prod = ''/''" by (simp add: acme_prod_fields)
  have t1: "build_tree ''/'' [(''a/b'', x), (''a/c'', y)] (VObj PlainObject [])
     = Inr (VObj PlainObject [(''a'', VObj PlainObject [(''b'', x), (''c'', y)])])" for x y
    by (simp add: set_item_def sp Object_prototype_keys_def)
  have t2: "build_tree ''/'' [(''a/c'', y), (''a/b'', x)] (VObj PlainObject [])
     = Inr (VObj PlainObject [(''a'', VObj PlainObject [(''c'', y), (''b'', x)])])" for x y
    by (simp add: set_item_def sp Object_prototype_keys_def)
  have c1: "for_in (build_config parse acme_prod
              [\<lparr> Name = ''acme/prod/a/b'', SecretString = s1 \<rparr>,
               \<lparr> Name = ''acme/prod/a/c'', SecretString = s2 \<rparr>] empty_config)
            = [(''a/b'', decode parse s1), (''a/c'', decode parse s2)]"
    by (simp add: st ix empty_config_def config_set_def for_in_def own_keys_order_def)
  have c2: "for_in (build_config parse acme_prod
              [\<lparr> Name = ''acme/prod/a/c'', SecretString = s2 \<rparr>,
               \<lparr> Name = ''acme/prod/a/b'', SecretString = s1 \<rparr>] empty_config)
            = [(''a/c'', decode parse s2), (''a/b'', decode parse s1)]"
    by (simp add: st ix empty_config_def config_set_def for_in_def own_keys_order_def)
  have p1: "parseSecrets parse acme_prod
        [\<lparr> Name = ''acme/prod/a/b'', SecretString = s1 \<rparr>, \<lparr> Name = ''acme/prod/a/c'', SecretString = s2 \<rparr>]
     = Inr (VObj PlainObject
         [(''a'', VObj PlainObject [(''b'', decode parse s1), (''c'', decode parse s2)])])"
    by (simp only: parseSecrets_def c1 d t1)
  have p2: "parseSecrets parse acme_prod
        [\<lparr> Name = ''acme/prod/a/c'', SecretString = s2 \<rparr>, \<lparr> Name = ''acme/prod/a/b'', SecretString = s1 \<rparr>]
     = Inr (VObj PlainObject
         [(''a'', VObj PlainObject [(''c'', decode parse s2), (''b'', decode parse s1)])])"
    by (simp only: parseSecrets_def c2 d t2)
  from t1 [of v1 v2] t2 [of v2 v1] p1 p2 show ?thesis by blast
qed

text \<open>
  C9. With a non-empty array as the \<open>namespace\<close> option the instance keeps the array
  itself, and \<open>createSecret\<close> prefixes the name with the array's default rendering (its
  elements joined with commas) followed by the delimiter, not with the elements joined
  with the delimiter.
\<close>

theorem array_namespace_comma_joined:
  assumes "xs \<noteq> []" and "opt_namespace options = JArr xs"
  shows "namespace (constructor penv options) = JArr xs
       \<and> create_Name (createSecret stringify (constructor penv options) copts)
           = JStr (join '','' xs @ delimiter (constructor penv options)
                   @ to_string (createSecret_name
                        ((constructor penv options)\<lparr> namespace := JUndefined \<rparr>) (name copts)))"
proof -
  have ns: "namespace (constructor penv options) = JArr xs"
    using assms by (simp add: constructor_def)
  then show ?thesis
    by (simp add: createSecret_def createSecret_name_def Let_def)
qed

theorem array_namespace_comma_joined_witness:
  "[''acme'', ''team''] \<noteq> []
   \<and> namespace (constructor no_env (no_options\<lparr> opt_namespace := JArr [''acme'', ''team''], opt_env := Some ''prod'' \<rparr>))
       = JArr [''acme'', ''team'']
   \<and> createSecret_name
        (constructor no_env (no_options\<lparr> opt_namespace := JArr [''acme'', ''team''], opt_env := Some ''prod'' \<rparr>))
        (JStr ''db/password'')
       = JStr ''acme,team/prod/db/password''
   \<and> join ''/'' [''acme'', ''team''] = ''acme/team''"
proof -
  have h1: "[''acme'', ''team''] \<noteq> []" by simp
  have h2: "opt_namespace (no_options\<lparr> opt_namespace := JArr [''acme'', ''team''], opt_env := Some ''prod'' \<rparr>)
              = JArr [''acme'', ''team'']" by simp
  from array_namespace_comma_joined [OF h1 h2, of no_env]
  show ?thesis
    by (simp add: createSecret_name_def constructor_def no_options_def no_env_def truthy_str_def
        or_str_def of_opt_def name_joined_def)
qed

text \<open>
  C10, as stated, fails: in retrieve-all mode without a namespace, the record name
  \<open>nuundefined/ll/a/null/b\<close> contains \<open>null/\<close>, and its first occurrence of \<open>null/\<close> is
  not removed. Line 237 removes \<open>undefined/\<close> first, which leaves \<open>null/a/null/b\<close>;
  line 238 then removes the \<open>null/\<close> that this has put at the front, and the name's own
  \<open>null/\<close> stays in the path \<open>a\<close>, \<open>null\<close>, \<open>b\<close>.
\<close>

theorem null_prefix_occurrence_counterexample:
  "parseSecrets parse_sample retrieve_all [record_of ''nuundefined/ll/a/null/b'' ''v'']
     = Inr (VObj PlainObject
         [(''a'', VObj PlainObject [(''null'', VObj PlainObject [(''b'', VStr ''v'')])])])"
  by (simp add: retrieve_all_fields parse_defs)

text \<open>
  C10, amended. On an instance constructed without a namespace, \<open>parseSecrets\<close> removes
  the first occurrence of the literal \<open>undefined\<close> followed by the delimiter from the
  record's name, and then the first occurrence of the environment followed by the
  delimiter from what is left. On an instance constructed with \<open>all\<close> set, it removes the
  first occurrence of the namespace followed by the delimiter from the name, and then
  the first occurrence of the literal \<open>null\<close> followed by the delimiter from what is
  left, which need not be the first occurrence in the name itself. The remainder is
  split into the path under which the record's value is stored, when that remainder is
  not \<open>__proto__\<close> and no segment of the path is a member of \<open>Object.prototype\<close>. A
  replacement removes the leftmost occurrence of its pattern and changes nothing when
  there is none.
\<close>

theorem literal_undefined_null_prefixes:
  assumes "this = constructor penv options"
  shows "(\<not> has_length (opt_namespace options)
            \<and> replace_first (to_string (env this) @ delimiter this)
                 (replace_first (''undefined'' @ delimiter this) n) \<noteq> ''__proto__''
            \<and> (\<forall>k\<in>set (split_str (delimiter this)
                    (replace_first (to_string (env this) @ delimiter this)
                       (replace_first (''undefined'' @ delimiter this) n))). ordinary_key k) \<longrightarrow>
            parseSecrets parse this [\<lparr> Name = n, SecretString = s \<rparr>]
              = Inr (nest (split_str (delimiter this)
                      (replace_first (to_string (env this) @ delimiter this)
                         (replace_first (''undefined'' @ delimiter this) n)))
                    (decode parse s)))
       \<and> (opt_all options
            \<and> replace_first (''null'' @ delimiter this)
                 (replace_first (to_string (namespace this) @ delimiter this) n) \<noteq> ''__proto__''
            \<and> (\<forall>k\<in>set (split_str (delimiter this)
                    (replace_first (''null'' @ delimiter this)
                       (replace_first (to_string (namespace this) @ delimiter this) n))). ordinary_key k) \<longrightarrow>
            parseSecrets parse this [\<lparr> Name = n, SecretString = s \<rparr>]
              = Inr (nest (split_str (delimiter this)
                      (replace_first (''null'' @ delimiter this)
                         (replace_first (to_string (namespace this) @ delimiter this) n)))
                    (decode parse s)))
       \<and> ((\<forall>i<length a. take (length p) (drop i (a @ p @ b)) \<noteq> p) \<longrightarrow>
            replace_first p (a @ p @ b) = a @ b)
       \<and> ((\<forall>i<length m. take (length p) (drop i m) \<noteq> p) \<longrightarrow> replace_first p m = m)"
proof (intro conjI impI)
  have d: "delimiter this \<noteq> []" using assms by (simp add: constructor_delimiter)
  {
    assume h: "\<not> has_length (opt_namespace options)
            \<and> replace_first (to_string (env this) @ delimiter this)
                 (replace_first (''undefined'' @ delimiter this) n) \<noteq> ''__proto__''
            \<and> (\<forall>k\<in>set (split_str (delimiter this)
                    (replace_first (to_string (env this) @ delimiter this)
                       (replace_first (''undefined'' @ delimiter this) n))). ordinary_key k)"
    then have "namespace this = JUndefined" using assms by (simp add: constructor_def)
    then have st: "strip_name this n = replace_first (to_string (env this) @ delimiter this)
                    (replace_first (''undefined'' @ delimiter this) n)"
      by (simp add: strip_name_def)
    from h st have "strip_name this (Name \<lparr> Name = n, SecretString = s \<rparr>) \<noteq> ''__proto__''"
      and "\<forall>k\<in>set (split_str (delimiter this)
              (strip_name this (Name \<lparr> Name = n, SecretString = s \<rparr>))). ordinary_key k"
      by simp_all
    from parseSecrets_single [OF d this, of parse] st
    show "parseSecrets parse this [\<lparr> Name = n, SecretString = s \<rparr>]
              = Inr (nest (split_str (delimiter this)
                      (replace_first (to_string (env this) @ delimiter this)
                         (replace_first (''undefined'' @ delimiter this) n)))
                    (decode parse s))"
      by simp
  }
  {
    assume h: "opt_all options
            \<and> replace_first (''null'' @ delimiter this)
                 (replace_first (to_string (namespace this) @ delimiter this) n) \<noteq> ''__proto__''
            \<and> (\<forall>k\<in>set (split_str (delimiter this)
                    (replace_first (''null'' @ delimiter this)
                       (replace_first (to_string (namespace this) @ delimiter this) n))). ordinary_key k)"
    then have "env this = JNull" using assms by (simp add: constructor_def)
    then have st: "strip_name this n = replace_first (''null'' @ delimiter this)
                    (replace_first (to_string (namespace this) @ delimiter this) n)"
      by (simp add: strip_name_def)
    from h st have "strip_name this (Name \<lparr> Name = n, SecretString = s \<rparr>) \<noteq> ''__proto__''"
      and "\<forall>k\<in>set (split_str (delimiter this)
              (strip_name this (Name \<lparr> Name = n, SecretString = s \<rparr>))). ordinary_key k"
      by simp_all
    from parseSecrets_single [OF d this, of parse] st
    show "parseSecrets parse this [\<lparr> Name = n, SecretString = s \<rparr>]
              = Inr (nest (split_str (delimiter this)
                      (replace_first (''null'' @ delimiter this)
                         (replace_first (to_string (namespace this) @ delimiter this) n)))
                    (decode parse s))"
      by simp
  }
  {
    assume "\<forall>i<length a. take (length p) (drop i (a @ p @ b)) \<noteq> p"
    then show "replace_first p (a @ p @ b) = a @ b" by (rule replace_first_leftmost)
  }
  {
    assume "\<forall>i<length m. take (length p) (drop i m) \<noteq> p"
    then show "replace_first p m = m" by (rule replace_first_absent)
  }
qed

theorem literal_undefined_null_prefixes_witness:
  "retrieve_all = constructor no_env (no_options\<lparr> opt_all := True \<rparr>)
   \<and> parseSecrets parse_sample retrieve_all [record_of ''x/null/db'' ''v'']
       = Inr (VObj PlainObject [(''x'', VObj PlainObject [(''db'', VStr ''v'')])])
   \<and> parseSecrets parse_sample retrieve_all [record_of ''undefined/db'' ''v'']
       = Inr (VObj PlainObject [(''db'', VStr ''v'')])
   \<and> replace_first ''null/'' (''x/'' @ ''null/'' @ ''db'') = ''x/'' @ ''db''
   \<and> replace_first ''null/'' ''db'' = ''db''"
proof -
  have h: "retrieve_all = constructor no_env (no_options\<lparr> opt_all := True \<rparr>)"
    by (simp add: retrieve_all_def)
  have o: "opt_all (no_options\<lparr> opt_all := True \<rparr>)"
    "\<not> has_length (opt_namespace (no_options\<lparr> opt_all := True \<rparr>))"
    by (simp_all add: no_options_def)
  have f: "delimiter retrieve_all = ''/''" "env retrieve_all = JNull"
    "namespace retrieve_all = JUndefined"
    by (simp_all add: retrieve_all_fields)
  have r: "replace_first ''undefined/'' ''x/null/db'' = ''x/null/db''"
    "replace_first ''null/'' ''x/null/db'' = ''x/db''"
    "replace_first ''undefined/'' ''undefined/db'' = ''db''"
    "replace_first ''null/'' ''db'' = ''db''"
    by simp_all
  have sp: "split_str ''/'' ''x/db'' = [''x'', ''db'']" "split_str ''/'' ''db'' = [''db'']"
    by (simp_all add: split_str_def)
  have k: "ordinary_key ''x''" "ordinary_key ''db''"
    by (simp_all add: ordinary_key_def Object_prototype_keys_def)
  have dec: "decode parse_sample (Some ''v'') = VStr ''v''"
    by (simp add: decode_def parse_sample_def)
  have occ: "\<forall>i<length ''x/''. take (length ''null/'') (drop i (''x/'' @ ''null/'' @ ''db'')) \<noteq> ''null/''"
    by (simp add: less_Suc_eq)
  note thm1 = literal_undefined_null_prefixes [OF h, where n = "''x/null/db''" and s = "Some ''v''"
      and parse = parse_sample and a = "''x/''" and p = "''null/''" and b = "''db''" and m = "''db''"]
  note thm2 = literal_undefined_null_prefixes [OF h, where n = "''undefined/db''" and s = "Some ''v''"
      and parse = parse_sample and a = "''x/''" and p = "''null/''" and b = "''db''" and m = "''db''"]
  from thm1 o have a: "parseSecrets parse_sample retrieve_all [record_of ''x/null/db'' ''v'']
       = Inr (VObj PlainObject [(''x'', VObj PlainObject [(''db'', VStr ''v'')])])"
    by (simp add: f r sp k dec record_of_def)
  from thm2 o have b: "parseSecrets parse_sample retrieve_all [record_of ''undefined/db'' ''v'']
       = Inr (VObj PlainObject [(''db'', VStr ''v'')])"
    by (simp add: f r sp k dec record_of_def)
  from thm1 occ have c: "replace_first ''null/'' (''x/'' @ ''null/'' @ ''db'') = ''x/'' @ ''db''"
    by blast
  have none: "\<forall>i<length ''db''. take (length ''null/'') (drop i ''db'') \<noteq> ''null/''"
    by (simp add: less_Suc_eq)
  from thm1 none have e: "replace_first ''null/'' ''db'' = ''db''"
    by blast
  from h a b c e show ?thesis by blast
qed

end
